theory Spec2Isabelle
  imports Complex_Main "HOL-Library.Multiset"
begin

section \<open>Numbers\<close>

text \<open>
  A JavaScript \<^verbatim>\<open>number\<close> is modelled as an exact real, so arithmetic carries no
  rounding error and never overflows. The only way the engine can leave the finite
  numbers is then a division by zero; results that may be non-finite are values of
  \<open>jsnum\<close>, with the IEEE rules for infinities and NaN. Zero is unsigned: every
  divisor that can be zero below is a non-negative zero in the source.
\<close>

datatype jsnum = Num real | PosInfinity | NegInfinity | NaN

fun js_neg :: "jsnum \<Rightarrow> jsnum" where
  "js_neg (Num a) = Num (- a)"
| "js_neg PosInfinity = NegInfinity"
| "js_neg NegInfinity = PosInfinity"
| "js_neg NaN = NaN"

fun js_add :: "jsnum \<Rightarrow> jsnum \<Rightarrow> jsnum" where
  "js_add (Num a) (Num b) = Num (a + b)"
| "js_add NaN _ = NaN"
| "js_add _ NaN = NaN"
| "js_add PosInfinity NegInfinity = NaN"
| "js_add NegInfinity PosInfinity = NaN"
| "js_add PosInfinity _ = PosInfinity"
| "js_add _ PosInfinity = PosInfinity"
| "js_add NegInfinity _ = NegInfinity"
| "js_add _ NegInfinity = NegInfinity"

definition js_sub :: "jsnum \<Rightarrow> jsnum \<Rightarrow> jsnum" where
  "js_sub x y = js_add x (js_neg y)"

fun js_mul :: "jsnum \<Rightarrow> jsnum \<Rightarrow> jsnum" where
  "js_mul (Num a) (Num b) = Num (a * b)"
| "js_mul NaN _ = NaN"
| "js_mul _ NaN = NaN"
| "js_mul (Num a) y =
     (if a = 0 then NaN else if 0 < a then y else js_neg y)"
| "js_mul x (Num b) =
     (if b = 0 then NaN else if 0 < b then x else js_neg x)"
| "js_mul PosInfinity y = y"
| "js_mul NegInfinity y = js_neg y"

fun js_div :: "jsnum \<Rightarrow> jsnum \<Rightarrow> jsnum" where
  "js_div (Num a) (Num b) =
     (if b \<noteq> 0 then Num (a / b)
      else if 0 < a then PosInfinity
      else if a < 0 then NegInfinity
      else NaN)"
| "js_div NaN _ = NaN"
| "js_div _ NaN = NaN"
| "js_div (Num a) _ = Num 0"
| "js_div x (Num b) = (if 0 \<le> b then x else js_neg x)"
| "js_div _ _ = NaN"

fun js_ge :: "jsnum \<Rightarrow> jsnum \<Rightarrow> bool" where
  "js_ge (Num a) (Num b) = (b \<le> a)"
| "js_ge NaN _ = False"
| "js_ge _ NaN = False"
| "js_ge PosInfinity _ = True"
| "js_ge _ NegInfinity = True"
| "js_ge _ _ = False"

text \<open>\<^verbatim>\<open>Math.round\<close>: the nearest integer, a tie going up.\<close>

definition math_round :: "real \<Rightarrow> real" where
  "math_round x = of_int \<lfloor>x + 1 / 2\<rfloor>"

fun js_round :: "jsnum \<Rightarrow> jsnum" where
  "js_round (Num a) = Num (math_round a)"
| "js_round x = x"

text \<open>
  \<^verbatim>\<open>parseFloat(x.toFixed(2))\<close>: the nearest multiple of 1/100, a tie going away
  from zero (\<^verbatim>\<open>toFixed\<close> rounds the magnitude and puts the sign back).
\<close>

definition toFixed2 :: "real \<Rightarrow> real" where
  "toFixed2 x =
     (if x < 0 then - (of_int \<lfloor>(- x) * 100 + 1 / 2\<rfloor> / 100)
      else of_int \<lfloor>x * 100 + 1 / 2\<rfloor> / 100)"

section \<open>Data model (types.ts)\<close>

record ProjectAssumptions =
  stationCost :: real
  systemCapacity :: real
  annualYieldYear1 :: real
  usdSomExchange :: real
  panelDegradation :: real
  inflationRate :: real
  baseTariff :: real
  projectLifetime :: real

record YearProjection =
  year :: int
  tariff :: real
  yield :: real
  revenue :: jsnum
  cumulativeRevenue :: jsnum
  isBreakEven :: bool

datatype error = TypeError

section \<open>Financial projection engine (App)\<close>

text \<open>
  The body of the \<^verbatim>\<open>for (let i = 0; i < assumptions.projectLifetime; i++)\<close> loop of
  \<^verbatim>\<open>projections\<close>, with the two variables it mutates as arguments. Each
  \<^verbatim>\<open>data.push\<close> is a cons in front of the entries of the later iterations.
\<close>

function projections_loop ::
  "ProjectAssumptions \<Rightarrow> nat \<Rightarrow> jsnum \<Rightarrow> bool \<Rightarrow> YearProjection list" where
  "projections_loop a i currentCumulative breakEvenYearFound =
     (if real i < projectLifetime a then
        (let degradationFactor = (1 - panelDegradation a) ^ i;
             inflationFactor = (1 + inflationRate a) ^ i;
             annualYield = annualYieldYear1 a * degradationFactor;
             tariff' = baseTariff a * inflationFactor;
             revenue' = js_div (Num (annualYield * tariff')) (Num (usdSomExchange a));
             currentCumulative' = js_add currentCumulative revenue';
             isBreakEven' = (\<not> breakEvenYearFound
                              \<and> js_ge currentCumulative' (Num (stationCost a)))
         in \<lparr>year = 2026 + int i,
             tariff = toFixed2 tariff',
             yield = math_round annualYield,
             revenue = js_round revenue',
             cumulativeRevenue = js_round currentCumulative',
             isBreakEven = isBreakEven'\<rparr>
            # projections_loop a (Suc i) currentCumulative'
                (breakEvenYearFound \<or> isBreakEven'))
      else [])"
  by pat_completeness auto
termination
proof (relation "measure (\<lambda>(a, i, c, f). nat \<lceil>projectLifetime a\<rceil> - i)")
  show "wf (measure (\<lambda>(a, i, c, f). nat \<lceil>projectLifetime a\<rceil> - i))"
    by simp
next
  fix a :: ProjectAssumptions and i :: nat and c :: jsnum and f :: bool
    and x1 x2 x3 x4 :: real and x5 x6 :: jsnum and x7 :: bool
  assume "real i < projectLifetime a"
  then have "real i < of_int \<lceil>projectLifetime a\<rceil>"
    by (meson le_of_int_ceiling less_le_trans)
  then have "int i < \<lceil>projectLifetime a\<rceil>"
    by simp
  then show "((a, Suc i, x6, f \<or> x7), (a, i, c, f))
      \<in> measure (\<lambda>(a, i, c, f). nat \<lceil>projectLifetime a\<rceil> - i)"
    by simp
qed

declare projections_loop.simps [simp del]

definition projections :: "ProjectAssumptions \<Rightarrow> YearProjection list" where
  "projections a = projections_loop a 0 (Num 0) False"

text \<open>
  \<^verbatim>\<open>xs[i]\<close> on an array: \<^verbatim>\<open>undefined\<close> outside the range, which is \<open>None\<close>
  here; reading a field of it is the \<open>TypeError\<close> of the callers below.
\<close>

definition arr_get :: "'a list \<Rightarrow> int \<Rightarrow> 'a option" where
  "arr_get xs i = (if 0 \<le> i \<and> i < int (length xs) then Some (xs ! nat i) else None)"

text \<open>
  \<^verbatim>\<open>Array.prototype.indexOf\<close>: the first index holding the element, \<open>-1\<close> when
  there is none. The source compares object identity; the element searched for is the
  first marked entry returned by \<^verbatim>\<open>find\<close>, and any entry equal to it is marked too,
  so the first equal entry is that same object.
\<close>

fun indexOf :: "'a list \<Rightarrow> 'a \<Rightarrow> int" where
  "indexOf [] y = - 1"
| "indexOf (x # xs) y =
     (if x = y then 0 else (let r = indexOf xs y in if r < 0 then - 1 else r + 1))"

definition paybackPeriod :: "ProjectAssumptions \<Rightarrow> error + jsnum" where
  "paybackPeriod a =
     (case List.find isBreakEven (projections a) of
        None \<Rightarrow> Inr (Num (projectLifetime a))
      | Some breakEven \<Rightarrow>
          (let idx = indexOf (projections a) breakEven in
           if idx = 0 then Inr (Num 1)
           else (case arr_get (projections a) (idx - 1) of
                   None \<Rightarrow> Inl TypeError
                 | Some prevYear \<Rightarrow>
                     (let needed = js_sub (Num (stationCost a)) (cumulativeRevenue prevYear)
                      in Inr (js_add (Num (of_int (year breakEven - 2026)))
                                (js_div needed (revenue breakEven)))))))"

definition totalRoi :: "ProjectAssumptions \<Rightarrow> error + jsnum" where
  "totalRoi a =
     (case arr_get (projections a) (int (length (projections a)) - 1) of
        None \<Rightarrow> Inl TypeError
      | Some lastYear \<Rightarrow>
          (let finalCumulative = cumulativeRevenue lastYear
           in Inr (js_mul (js_div finalCumulative (Num (stationCost a))) (Num 100))))"


text \<open>\<^verbatim>\<open>DEFAULT_ASSUMPTIONS\<close> of the application (numeric fields).\<close>

definition DEFAULT_ASSUMPTIONS :: ProjectAssumptions where
  "DEFAULT_ASSUMPTIONS =
     \<lparr>stationCost = 694000,
      systemCapacity = 1000,
      annualYieldYear1 = 1683000,
      usdSomExchange = 875 / 10,
      panelDegradation = 55 / 10000,
      inflationRate = 7 / 100,
      baseTariff = 447 / 100,
      projectLifetime = 25\<rparr>"

subsection \<open>The per-year formulas of the specification\<close>

text \<open>
  The unrounded values of year index \<open>i\<close> as the specification writes them:
  \<open>yield_i\<close>, \<open>tariff_i\<close>, \<open>revenue_i\<close>, and the running sum \<open>cumulative_i\<close> with
  \<open>cumulative_before a 0 = 0\<close> for the sum before the first year. The loop above is
  compared with them.
\<close>

definition yield_i :: "ProjectAssumptions \<Rightarrow> nat \<Rightarrow> real" where
  "yield_i a i = annualYieldYear1 a * (1 - panelDegradation a) ^ i"

definition tariff_i :: "ProjectAssumptions \<Rightarrow> nat \<Rightarrow> real" where
  "tariff_i a i = baseTariff a * (1 + inflationRate a) ^ i"

definition revenue_i :: "ProjectAssumptions \<Rightarrow> nat \<Rightarrow> jsnum" where
  "revenue_i a i = js_div (Num (yield_i a i * tariff_i a i)) (Num (usdSomExchange a))"

fun cumulative_before :: "ProjectAssumptions \<Rightarrow> nat \<Rightarrow> jsnum" where
  "cumulative_before a 0 = Num 0"
| "cumulative_before a (Suc n) = js_add (cumulative_before a n) (revenue_i a n)"

definition cumulative_i :: "ProjectAssumptions \<Rightarrow> nat \<Rightarrow> jsnum" where
  "cumulative_i a i = js_add (cumulative_before a i) (revenue_i a i)"

text \<open>Year \<open>i\<close> reaches break-even: its unrounded running sum covers the station cost.\<close>

definition reaches :: "ProjectAssumptions \<Rightarrow> nat \<Rightarrow> bool" where
  "reaches a i = js_ge (cumulative_i a i) (Num (stationCost a))"

text \<open>The documented domain of the assumptions that the monotonicity property needs.\<close>

definition documented_domain :: "ProjectAssumptions \<Rightarrow> bool" where
  "documented_domain a =
     (0 \<le> annualYieldYear1 a \<and> 0 \<le> baseTariff a
      \<and> 0 \<le> panelDegradation a \<and> panelDegradation a < 1
      \<and> - 1 \<le> inflationRate a \<and> 0 < usdSomExchange a)"

text \<open>
  The loop's two variables after \<open>k\<close> iterations that started at index \<open>i\<close> with the
  values \<open>c\<close> and \<open>f\<close>.
\<close>

fun cum_from :: "ProjectAssumptions \<Rightarrow> nat \<Rightarrow> jsnum \<Rightarrow> nat \<Rightarrow> jsnum" where
  "cum_from a i c 0 = c"
| "cum_from a i c (Suc k) = js_add (cum_from a i c k) (revenue_i a (i + k))"

fun found_from :: "ProjectAssumptions \<Rightarrow> nat \<Rightarrow> jsnum \<Rightarrow> bool \<Rightarrow> nat \<Rightarrow> bool" where
  "found_from a i c f 0 = f"
| "found_from a i c f (Suc k) =
     (found_from a i c f k \<or> js_ge (cum_from a i c (Suc k)) (Num (stationCost a)))"

subsection \<open>Example inputs\<close>

text \<open>A first year whose running sum 99.6 is displayed as 100, the station cost.\<close>

definition rounding_example :: ProjectAssumptions where
  "rounding_example =
     \<lparr>stationCost = 100,
      systemCapacity = 1,
      annualYieldYear1 = 996 / 10,
      usdSomExchange = 1,
      panelDegradation = 0,
      inflationRate = 0,
      baseTariff = 1,
      projectLifetime = 2\<rparr>"

text \<open>A yearly revenue of 60.4 against a station cost of 100.\<close>

definition interpolation_example :: ProjectAssumptions where
  "interpolation_example =
     \<lparr>stationCost = 100,
      systemCapacity = 1,
      annualYieldYear1 = 604 / 10,
      usdSomExchange = 1,
      panelDegradation = 0,
      inflationRate = 0,
      baseTariff = 1,
      projectLifetime = 3\<rparr>"

text \<open>The default assumptions with the lifetime field cleared to 0.\<close>

definition zero_lifetime_example :: ProjectAssumptions where
  "zero_lifetime_example = DEFAULT_ASSUMPTIONS\<lparr>projectLifetime := 0\<rparr>"

text \<open>A one-year project with a station cost of 0.\<close>

definition zero_cost_example :: ProjectAssumptions where
  "zero_cost_example =
     \<lparr>stationCost = 0,
      systemCapacity = 1,
      annualYieldYear1 = 100,
      usdSomExchange = 1,
      panelDegradation = 0,
      inflationRate = 0,
      baseTariff = 1,
      projectLifetime = 1\<rparr>"

subsection \<open>The loop within the range of a double\<close>

text \<open>
  Whether the running sum can decrease is decided by overflow, which exact reals do
  not have. Here the loop is given once more with the range of a double: an
  arithmetic result whose magnitude reaches \<open>2 ^ 1024 - 2 ^ 970\<close> is
  \<^verbatim>\<open>Infinity\<close> with its sign, as rounding to nearest makes it, and a smaller result
  is kept exact. Every operation of the loop goes through this check, and the fields
  that \<open>Math.round\<close> and \<open>toFixed\<close> fill can then be \<^verbatim>\<open>Infinity\<close> or
  \<^verbatim>\<open>NaN\<close>. Nothing else differs from \<open>projections_loop\<close>.
\<close>

definition overflow_bound :: real where
  "overflow_bound = 2 ^ 1024 - 2 ^ 970"

definition js_fin :: "real \<Rightarrow> jsnum" where
  "js_fin x =
     (if overflow_bound \<le> x then PosInfinity
      else if x \<le> - overflow_bound then NegInfinity
      else Num x)"

fun js_range :: "jsnum \<Rightarrow> jsnum" where
  "js_range (Num x) = js_fin x"
| "js_range v = v"

definition d_add :: "jsnum \<Rightarrow> jsnum \<Rightarrow> jsnum" where
  "d_add x y = js_range (js_add x y)"

definition d_sub :: "jsnum \<Rightarrow> jsnum \<Rightarrow> jsnum" where
  "d_sub x y = js_range (js_sub x y)"

definition d_mul :: "jsnum \<Rightarrow> jsnum \<Rightarrow> jsnum" where
  "d_mul x y = js_range (js_mul x y)"

definition d_div :: "jsnum \<Rightarrow> jsnum \<Rightarrow> jsnum" where
  "d_div x y = js_range (js_div x y)"

text \<open>\<^verbatim>\<open>Math.pow\<close> with an index of the loop as exponent; the exponent 0 gives 1.\<close>

definition js_pow :: "jsnum \<Rightarrow> nat \<Rightarrow> jsnum" where
  "js_pow x n =
     (if n = 0 then Num 1
      else (case x of
              Num b \<Rightarrow> js_fin (b ^ n)
            | PosInfinity \<Rightarrow> PosInfinity
            | NegInfinity \<Rightarrow> (if even n then PosInfinity else NegInfinity)
            | NaN \<Rightarrow> NaN))"

text \<open>\<^verbatim>\<open>parseFloat(x.toFixed(2))\<close> on a value that may not be finite.\<close>

fun js_toFixed2 :: "jsnum \<Rightarrow> jsnum" where
  "js_toFixed2 (Num x) = Num (toFixed2 x)"
| "js_toFixed2 v = v"

record YearProjection_d =
  year_d :: int
  tariff_d :: jsnum
  yield_d :: jsnum
  revenue_d :: jsnum
  cumulativeRevenue_d :: jsnum
  isBreakEven_d :: bool

function projections_loop_d ::
  "ProjectAssumptions \<Rightarrow> nat \<Rightarrow> jsnum \<Rightarrow> bool \<Rightarrow> YearProjection_d list" where
  "projections_loop_d a i currentCumulative breakEvenYearFound =
     (if real i < projectLifetime a then
        (let degradationFactor = js_pow (d_sub (Num 1) (Num (panelDegradation a))) i;
             inflationFactor = js_pow (d_add (Num 1) (Num (inflationRate a))) i;
             annualYield = d_mul (Num (annualYieldYear1 a)) degradationFactor;
             tariff' = d_mul (Num (baseTariff a)) inflationFactor;
             revenue' = d_div (d_mul annualYield tariff') (Num (usdSomExchange a));
             currentCumulative' = d_add currentCumulative revenue';
             isBreakEven' = (\<not> breakEvenYearFound
                              \<and> js_ge currentCumulative' (Num (stationCost a)))
         in \<lparr>year_d = 2026 + int i,
             tariff_d = js_toFixed2 tariff',
             yield_d = js_round annualYield,
             revenue_d = js_round revenue',
             cumulativeRevenue_d = js_round currentCumulative',
             isBreakEven_d = isBreakEven'\<rparr>
            # projections_loop_d a (Suc i) currentCumulative'
                (breakEvenYearFound \<or> isBreakEven'))
      else [])"
  by pat_completeness auto
termination
proof (relation "measure (\<lambda>(a, i, c, f). nat \<lceil>projectLifetime a\<rceil> - i)")
  show "wf (measure (\<lambda>(a, i, c, f). nat \<lceil>projectLifetime a\<rceil> - i))"
    by simp
next
  fix a :: ProjectAssumptions and i :: nat and c :: jsnum and f :: bool
    and x1 x2 x3 x4 x5 x6 :: jsnum and x7 :: bool
  assume "real i < projectLifetime a"
  then have "real i < of_int \<lceil>projectLifetime a\<rceil>"
    by (meson le_of_int_ceiling less_le_trans)
  then have "int i < \<lceil>projectLifetime a\<rceil>"
    by simp
  then show "((a, Suc i, x6, f \<or> x7), (a, i, c, f))
      \<in> measure (\<lambda>(a, i, c, f). nat \<lceil>projectLifetime a\<rceil> - i)"
    by simp
qed

declare projections_loop_d.simps [simp del]

definition projections_d :: "ProjectAssumptions \<Rightarrow> YearProjection_d list" where
  "projections_d a = projections_loop_d a 0 (Num 0) False"

text \<open>
  An input of the documented domain: no yield, and an inflation rate of \<open>1e200\<close>,
  whose factor overflows in the third year.
\<close>

definition overflow_example :: ProjectAssumptions where
  "overflow_example =
     \<lparr>stationCost = 1,
      systemCapacity = 1,
      annualYieldYear1 = 0,
      usdSomExchange = 1,
      panelDegradation = 0,
      inflationRate = 10 ^ 200,
      baseTariff = 1,
      projectLifetime = 3\<rparr>"

text \<open>A finite value; a value that is not negative, \<^verbatim>\<open>Infinity\<close> included.\<close>

fun is_Num :: "jsnum \<Rightarrow> bool" where
  "is_Num (Num x) = True"
| "is_Num v = False"

fun nonneg :: "jsnum \<Rightarrow> bool" where
  "nonneg (Num x) = (0 \<le> x)"
| "nonneg PosInfinity = True"
| "nonneg v = False"

text \<open>
  The values of year \<open>i\<close> in this loop, the running sum after \<open>k\<close> iterations, and
  the condition that the escalated tariff of each of the first \<open>n\<close> years is finite.
\<close>

definition yield_d_i :: "ProjectAssumptions \<Rightarrow> nat \<Rightarrow> jsnum" where
  "yield_d_i a i =
     d_mul (Num (annualYieldYear1 a)) (js_pow (d_sub (Num 1) (Num (panelDegradation a))) i)"

definition tariff_d_i :: "ProjectAssumptions \<Rightarrow> nat \<Rightarrow> jsnum" where
  "tariff_d_i a i =
     d_mul (Num (baseTariff a)) (js_pow (d_add (Num 1) (Num (inflationRate a))) i)"

definition revenue_d_i :: "ProjectAssumptions \<Rightarrow> nat \<Rightarrow> jsnum" where
  "revenue_d_i a i =
     d_div (d_mul (yield_d_i a i) (tariff_d_i a i)) (Num (usdSomExchange a))"

fun cum_d_from :: "ProjectAssumptions \<Rightarrow> nat \<Rightarrow> jsnum \<Rightarrow> nat \<Rightarrow> jsnum" where
  "cum_d_from a i c 0 = c"
| "cum_d_from a i c (Suc k) = d_add (cum_d_from a i c k) (revenue_d_i a (i + k))"

fun tariffs_finite :: "ProjectAssumptions \<Rightarrow> nat \<Rightarrow> bool" where
  "tariffs_finite a 0 = True"
| "tariffs_finite a (Suc n) = (tariffs_finite a n \<and> is_Num (tariff_d_i a n))"

section \<open>Horizon and sun-path geometry (HorizonChart)\<close>

record HorizonPoint =
  azimuth :: real
  height :: real

definition chart_size :: real where
  "chart_size = 260"

definition center :: real where
  "center = chart_size / 2"

definition radius :: real where
  "radius = 90"

definition getCoords :: "real \<Rightarrow> real \<Rightarrow> real \<times> real" where
  "getCoords az ht =
     (let angleRad = (az + 90) * (pi / 180);
          r = radius * (1 - ht / 90)
      in (center + r * cos angleRad, center + r * sin angleRad))"

text \<open>
  The SVG path data that the source builds as a string: \<^verbatim>\<open>M x y\<close>, \<^verbatim>\<open>L x y\<close> and
  \<^verbatim>\<open>Z\<close>, kept as the sequence of its commands. The empty string is the empty list.
\<close>

datatype path_cmd = MoveTo real real | LineTo real real | ClosePath

type_synonym path = "path_cmd list"

text \<open>The fallback loop \<^verbatim>\<open>for (let a = -180; a <= 180; a += 5)\<close>.\<close>

function dummy_loop :: "int \<Rightarrow> HorizonPoint list" where
  "dummy_loop a =
     (if a \<le> 180 then
        (let h = 8 + sin (of_int a * pi / 45) * 4 + cos (of_int a * pi / 90) * 3
         in \<lparr>azimuth = of_int a, height = max 0 h\<rparr> # dummy_loop (a + 5))
      else [])"
  by pat_completeness auto
termination
  by (relation "measure (\<lambda>a. nat (181 - a))") auto

declare dummy_loop.simps [simp del]

text \<open>
  \<^verbatim>\<open>[...horizon].sort((a, b) => a.azimuth - b.azimuth)\<close> is a stable sort by
  azimuth, as \<open>sort_key\<close> is.
\<close>

definition effectiveHorizon :: "HorizonPoint list option \<Rightarrow> HorizonPoint list" where
  "effectiveHorizon horizon =
     (case horizon of
        None \<Rightarrow> dummy_loop (- 180)
      | Some hs \<Rightarrow> if length hs = 0 then dummy_loop (- 180) else sort_key azimuth hs)"

text \<open>
  The closing loop
  \<^verbatim>\<open>for (let a = last.azimuth; a >= first.azimuth; a -= 5)\<close> along the rim.
\<close>

function rim_loop :: "real \<Rightarrow> real \<Rightarrow> path" where
  "rim_loop a lo =
     (if lo \<le> a then
        (let edge = getCoords a 0
         in LineTo (fst edge) (snd edge) # rim_loop (a - 5) lo)
      else [])"
  by pat_completeness auto
termination
proof (relation "measure (\<lambda>(a, lo). nat (\<lfloor>(a - lo) / 5\<rfloor> + 1))")
  show "wf (measure (\<lambda>(a, lo). nat (\<lfloor>(a - lo) / 5\<rfloor> + 1)))"
    by simp
next
  fix a lo :: real and x :: "real \<times> real"
  assume le: "lo \<le> a"
  have eq: "(a - 5 - lo) / 5 = (a - lo) / 5 - 1"
    by (simp add: field_simps)
  have "\<lfloor>(a - 5 - lo) / 5\<rfloor> = \<lfloor>(a - lo) / 5\<rfloor> - 1"
    unfolding eq by (rule floor_diff_one)
  moreover from le have "0 \<le> \<lfloor>(a - lo) / 5\<rfloor>"
    by simp
  ultimately show "((a - 5, lo), (a, lo)) \<in> measure (\<lambda>(a, lo). nat (\<lfloor>(a - lo) / 5\<rfloor> + 1))"
    by simp
qed

declare rim_loop.simps [simp del]

definition horizonPath :: "HorizonPoint list \<Rightarrow> path" where
  "horizonPath eh =
     (if length eh = 0 then []
      else
        (let points = map (\<lambda>p. getCoords (azimuth p) (height p)) eh
         in MoveTo (fst (points ! 0)) (snd (points ! 0))
            # map (\<lambda>p. LineTo (fst p) (snd p)) (drop 1 points)
            @ rim_loop (azimuth (eh ! (length eh - 1))) (azimuth (eh ! 0))
            @ [ClosePath]))"

text \<open>The path and the badge that \<^verbatim>\<open>HorizonChart\<close> renders from its props.\<close>

definition chart_horizonPath :: "HorizonPoint list option \<Rightarrow> path" where
  "chart_horizonPath horizon = horizonPath (effectiveHorizon horizon)"

definition badge :: "bool \<Rightarrow> string" where
  "badge isReal =
     (if isReal then ''Verified: JRC PrintHorizon Data'' else ''Estimated Demo Profile'')"




subsection \<open>The geometry as the specification words it\<close>

text \<open>The synthetic profile: azimuths \<open>-180, -175, \<dots>, 180\<close>, a sum of two sinusoids.\<close>

definition synthetic_point :: "int \<Rightarrow> HorizonPoint" where
  "synthetic_point a =
     \<lparr>azimuth = of_int a,
      height = max 0 (8 + sin (of_int a * pi / 45) * 4 + cos (of_int a * pi / 90) * 3)\<rparr>"

definition synthetic_profile :: "HorizonPoint list" where
  "synthetic_profile = map (\<lambda>k. synthetic_point (- 180 + 5 * int k)) [0..<73]"

fun is_LineTo :: "path_cmd \<Rightarrow> bool" where
  "is_LineTo (LineTo x y) = True"
| "is_LineTo c = False"

text \<open>A closed path: one \<^verbatim>\<open>M\<close>, then only \<^verbatim>\<open>L\<close>, then the closing \<^verbatim>\<open>Z\<close>.\<close>

fun closed_path :: "path \<Rightarrow> bool" where
  "closed_path (MoveTo x y # rest) =
     (rest \<noteq> [] \<and> last rest = ClosePath \<and> list_all is_LineTo (butlast rest))"
| "closed_path p = False"








section \<open>State of the PV-performance view (PvPerformance)\<close>

text \<open>
  The state hooks that the location and the horizon data go through (lines 207 to 334
  of the component); the other hooks (results, loading, map style) do not bear on them
  and are left out. A handler's \<^verbatim>\<open>setState\<close> calls are one step. The events are
  the two map handlers, the two typed coordinate inputs, and the two ways
  \<^verbatim>\<open>fetchHorizon\<close> ends: with an answer, or in its \<^verbatim>\<open>catch\<close>.
\<close>

record ViewState =
  lat :: jsnum
  lon :: jsnum
  horizonData :: "HorizonPoint list option"
  isDataReal :: bool

definition initial_state :: ViewState where
  "initial_state =
     \<lparr>lat = Num (414228 / 10000), lon = Num (759650 / 10000),
      horizonData = None, isDataReal = False\<rparr>"

text \<open>\<^verbatim>\<open>parseFloat(x.toFixed(4))\<close>, as \<open>toFixed2\<close> with four decimals.\<close>

definition toFixed4 :: "real \<Rightarrow> real" where
  "toFixed4 x =
     (if x < 0 then - (of_int \<lfloor>(- x) * 10000 + 1 / 2\<rfloor> / 10000)
      else of_int \<lfloor>x * 10000 + 1 / 2\<rfloor> / 10000)"

text \<open>
  The horizon service's answer after \<^verbatim>\<open>split\<close>, \<^verbatim>\<open>trim\<close> and the filter for
  non-empty lines: each line is the list of its whitespace-separated parts, and a part
  is the finite number \<^verbatim>\<open>parseFloat\<close> reads from it, \<open>None\<close> for \<^verbatim>\<open>NaN\<close>.
\<close>

type_synonym response_line = "real option list"

definition parse_line :: "response_line \<Rightarrow> HorizonPoint option" where
  "parse_line parts =
     (if 2 \<le> length parts then
        (case (parts ! 0, parts ! 1) of
           (Some az, Some ht) \<Rightarrow> Some \<lparr>azimuth = az, height = ht\<rparr>
         | _ \<Rightarrow> None)
      else None)"

definition parsedHorizon :: "response_line list \<Rightarrow> HorizonPoint list" where
  "parsedHorizon lines =
     (if 2 < length lines then List.map_filter parse_line (drop 2 lines) else [])"

datatype event =
    DragEnd real real
  | MapClick real real
  | LatInput jsnum
  | LonInput jsnum
  | HorizonResponse "response_line list"
  | HorizonFailure

fun step :: "ViewState \<Rightarrow> event \<Rightarrow> ViewState" where
  "step s (DragEnd la lo) =
     s\<lparr>lat := Num (toFixed4 la), lon := Num (toFixed4 lo), isDataReal := False\<rparr>"
| "step s (MapClick la lo) =
     s\<lparr>lat := Num (toFixed4 la), lon := Num (toFixed4 lo), isDataReal := False\<rparr>"
| "step s (LatInput v) = s\<lparr>lat := v\<rparr>"
| "step s (LonInput v) = s\<lparr>lon := v\<rparr>"
| "step s (HorizonResponse lines) =
     (if 0 < length (parsedHorizon lines)
      then s\<lparr>horizonData := Some (parsedHorizon lines), isDataReal := True\<rparr>
      else s)"
| "step s HorizonFailure = s\<lparr>isDataReal := False\<rparr>"

definition run :: "event list \<Rightarrow> ViewState" where
  "run es = foldl step initial_state es"

text \<open>
  The state holds no samples, which is when \<open>effectiveHorizon\<close> takes its first
  branch and the chart draws the synthetic profile.
\<close>

definition shows_fallback :: "ViewState \<Rightarrow> bool" where
  "shows_fallback s = (horizonData s = None \<or> horizonData s = Some [])"

section \<open>The projection loop and its entries\<close>

lemma cum_from_shift:
  "cum_from a (Suc i) (js_add c (revenue_i a i)) k = cum_from a i c (Suc k)"
  by (induction k) simp_all

lemma found_from_shift:
  "found_from a (Suc i) (js_add c (revenue_i a i))
     (f \<or> js_ge (js_add c (revenue_i a i)) (Num (stationCost a))) k =
   found_from a i c f (Suc k)"
proof (induction k)
  case 0
  show ?case by simp
next
  case (Suc k)
  have "found_from a (Suc i) (js_add c (revenue_i a i))
          (f \<or> js_ge (js_add c (revenue_i a i)) (Num (stationCost a))) (Suc k) =
        (found_from a i c f (Suc k)
          \<or> js_ge (cum_from a (Suc i) (js_add c (revenue_i a i)) (Suc k))
               (Num (stationCost a)))"
    by (simp only: found_from.simps(2) [of a "Suc i"] Suc.IH)
  also have "\<dots> = (found_from a i c f (Suc k)
          \<or> js_ge (cum_from a i c (Suc (Suc k))) (Num (stationCost a)))"
    by (simp only: cum_from_shift)
  also have "\<dots> = found_from a i c f (Suc (Suc k))"
    by (simp only: found_from.simps(2) [of a i c f "Suc k"])
  finally show ?case .
qed

lemma loop_step:
  "real i < projectLifetime a \<Longrightarrow>
   projections_loop a i c f =
     \<lparr>year = 2026 + int i,
      tariff = toFixed2 (tariff_i a i),
      yield = math_round (yield_i a i),
      revenue = js_round (revenue_i a i),
      cumulativeRevenue = js_round (js_add c (revenue_i a i)),
      isBreakEven = (\<not> f \<and> js_ge (js_add c (revenue_i a i)) (Num (stationCost a)))\<rparr>
     # projections_loop a (Suc i) (js_add c (revenue_i a i))
         (f \<or> js_ge (js_add c (revenue_i a i)) (Num (stationCost a)))"
proof -
  have b: "(f \<or> \<not> f \<and> g) = (f \<or> g)" for g
    by blast
  assume "real i < projectLifetime a"
  then show ?thesis
    by (subst projections_loop.simps)
       (simp add: Let_def yield_i_def tariff_i_def revenue_i_def b del: js_div.simps)
qed

lemma loop_stop:
  "\<not> real i < projectLifetime a \<Longrightarrow> projections_loop a i c f = []"
  by (subst projections_loop.simps) simp

lemma loop_length:
  "length (projections_loop a i c f) = nat \<lceil>projectLifetime a\<rceil> - i"
proof (induction "nat \<lceil>projectLifetime a\<rceil> - i" arbitrary: i c f)
  case 0
  then have "\<lceil>projectLifetime a\<rceil> \<le> int i"
    by linarith
  then have "\<not> real i < projectLifetime a"
    by (simp add: ceiling_le_iff)
  with 0 show ?case
    by (simp add: loop_stop)
next
  case (Suc n)
  then have "int i < \<lceil>projectLifetime a\<rceil>"
    by linarith
  then have lt: "real i < projectLifetime a"
    by (simp add: less_ceiling_iff)
  from Suc.hyps(2) have "n = nat \<lceil>projectLifetime a\<rceil> - Suc i"
    by linarith
  from Suc.hyps(1) [OF this] Suc.hyps(2) show ?case
    by (simp add: loop_step [OF lt])
qed

lemma loop_nth:
  "k < nat \<lceil>projectLifetime a\<rceil> - i \<Longrightarrow>
   projections_loop a i c f ! k =
     \<lparr>year = 2026 + int (i + k),
      tariff = toFixed2 (tariff_i a (i + k)),
      yield = math_round (yield_i a (i + k)),
      revenue = js_round (revenue_i a (i + k)),
      cumulativeRevenue = js_round (cum_from a i c (Suc k)),
      isBreakEven = (\<not> found_from a i c f k
                        \<and> js_ge (cum_from a i c (Suc k)) (Num (stationCost a)))\<rparr>"
proof (induction k arbitrary: i c f)
  case 0
  then have "int i < \<lceil>projectLifetime a\<rceil>"
    by linarith
  then have lt: "real i < projectLifetime a"
    by (simp add: less_ceiling_iff)
  show ?case
    by (simp add: loop_step [OF lt])
next
  case (Suc k)
  then have "int i < \<lceil>projectLifetime a\<rceil>"
    by linarith
  then have lt: "real i < projectLifetime a"
    by (simp add: less_ceiling_iff)
  from Suc.prems have "k < nat \<lceil>projectLifetime a\<rceil> - Suc i"
    by linarith
  from Suc.IH [OF this] show ?case
    by (simp add: loop_step [OF lt] cum_from_shift found_from_shift
             del: cum_from.simps(2) found_from.simps(2))
qed

lemma cum_from_start: "cum_from a 0 (Num 0) k = cumulative_before a k"
  by (induction k) simp_all

lemma cum_from_start_Suc: "cum_from a 0 (Num 0) (Suc k) = cumulative_i a k"
  by (simp add: cum_from_start cumulative_i_def)

lemma found_from_start:
  "found_from a 0 (Num 0) False k = (\<exists>j<k. reaches a j)"
  by (induction k)
     (auto simp add: cum_from_start_Suc reaches_def less_Suc_eq
           simp del: cum_from.simps(2))

lemma projections_length: "length (projections a) = nat \<lceil>projectLifetime a\<rceil>"
  by (simp add: projections_def loop_length)

lemma index_in_range:
  "k < length (projections a) \<longleftrightarrow> real k < projectLifetime a"
proof -
  have "k < nat \<lceil>projectLifetime a\<rceil> \<longleftrightarrow> int k < \<lceil>projectLifetime a\<rceil>"
    by (rule zless_nat_eq_int_zless)
  also have "\<dots> \<longleftrightarrow> real k < projectLifetime a"
    by (simp add: less_ceiling_iff)
  finally show ?thesis
    by (simp add: projections_length)
qed

lemma projections_nth:
  assumes "k < length (projections a)"
  shows "projections a ! k =
     \<lparr>year = 2026 + int k,
      tariff = toFixed2 (tariff_i a k),
      yield = math_round (yield_i a k),
      revenue = js_round (revenue_i a k),
      cumulativeRevenue = js_round (cumulative_i a k),
      isBreakEven = (reaches a k \<and> (\<forall>j<k. \<not> reaches a j))\<rparr>"
proof -
  from assms have "k < nat \<lceil>projectLifetime a\<rceil> - 0"
    by (simp add: projections_length)
  from loop_nth [OF this, of "Num 0" False] show ?thesis
    by (simp add: projections_def cum_from_start_Suc found_from_start
          reaches_def conj_commute
          del: found_from.simps(2) cum_from.simps(2))
qed

lemma marked_iff:
  "k < length (projections a) \<Longrightarrow>
   isBreakEven (projections a ! k) \<longleftrightarrow> reaches a k \<and> (\<forall>j<k. \<not> reaches a j)"
  by (simp add: projections_nth)

lemma filter_at_most_one:
  assumes "\<And>i j. i < j \<Longrightarrow> j < length xs \<Longrightarrow> P (xs ! i) \<Longrightarrow> \<not> P (xs ! j)"
  shows "length (filter P xs) \<le> 1"
  using assms
proof (induction xs)
  case Nil
  show ?case by simp
next
  case (Cons x xs)
  have tl: "\<And>i j. i < j \<Longrightarrow> j < length xs \<Longrightarrow> P (xs ! i) \<Longrightarrow> \<not> P (xs ! j)"
    using Cons.prems [of "Suc i" "Suc j" for i j] by simp
  show ?case
  proof (cases "P x")
    case True
    have "\<not> P (xs ! j)" if "j < length xs" for j
      using Cons.prems [of 0 "Suc j"] that True by simp
    then have "filter P xs = []"
      by (auto simp add: filter_empty_conv in_set_conv_nth)
    with True show ?thesis by simp
  next
    case False
    with Cons.IH [OF tl] show ?thesis by simp
  qed
qed

lemma marked_at_most_one: "length (filter isBreakEven (projections a)) \<le> 1"
proof (rule filter_at_most_one)
  fix i j
  assume "i < j" and j: "j < length (projections a)"
    and "isBreakEven (projections a ! i)"
  then have "reaches a i"
    by (simp add: marked_iff)
  with \<open>i < j\<close> have "\<not> (\<forall>k<j. \<not> reaches a k)"
    by blast
  with j show "\<not> isBreakEven (projections a ! j)"
    by (simp add: marked_iff)
qed

lemma rounding_example_projections:
  "projections rounding_example =
     [\<lparr>year = 2026, tariff = 1, yield = 100, revenue = Num 100,
       cumulativeRevenue = Num 100, isBreakEven = False\<rparr>,
      \<lparr>year = 2027, tariff = 1, yield = 100, revenue = Num 100,
       cumulativeRevenue = Num 199, isBreakEven = True\<rparr>]"
  by (simp add: projections_def rounding_example_def projections_loop.simps
        Let_def math_round_def toFixed2_def)

lemma interpolation_example_projections:
  "projections interpolation_example =
     [\<lparr>year = 2026, tariff = 1, yield = 60, revenue = Num 60,
       cumulativeRevenue = Num 60, isBreakEven = False\<rparr>,
      \<lparr>year = 2027, tariff = 1, yield = 60, revenue = Num 60,
       cumulativeRevenue = Num 121, isBreakEven = True\<rparr>,
      \<lparr>year = 2028, tariff = 1, yield = 60, revenue = Num 60,
       cumulativeRevenue = Num 181, isBreakEven = False\<rparr>]"
  by (simp add: projections_def interpolation_example_def projections_loop.simps
        Let_def math_round_def toFixed2_def)

lemma rounding_example_reaches:
  "\<not> reaches rounding_example 0" "reaches rounding_example 1"
  by (simp_all add: reaches_def cumulative_i_def revenue_i_def yield_i_def tariff_i_def
        rounding_example_def)

text \<open>
  C1. For every year index \<open>i\<close> below the project lifetime the engine emits an entry
  for the calendar year \<open>2026 + i\<close> whose fields are the rounded snapshot of the
  unrounded values \<open>yield_i = annualYieldYear1 * (1 - panelDegradation) ^ i\<close>,
  \<open>tariff_i = baseTariff * (1 + inflationRate) ^ i\<close>,
  \<open>revenue_i = yield_i * tariff_i / usdSomExchange\<close> and
  \<open>cumulative_i = cumulative_(i-1) + revenue_i\<close> (starting from 0): the tariff to two
  decimals, the other three to whole units. The running sum is built from the
  unrounded revenues only.
\<close>

theorem projections_follow_formulas:
  assumes "real i < projectLifetime a"
  shows "i < length (projections a)
    \<and> year (projections a ! i) = 2026 + int i
    \<and> tariff (projections a ! i) = toFixed2 (tariff_i a i)
    \<and> yield (projections a ! i) = math_round (yield_i a i)
    \<and> revenue (projections a ! i) = js_round (revenue_i a i)
    \<and> cumulativeRevenue (projections a ! i) = js_round (cumulative_i a i)
    \<and> cumulative_i a i =
        js_add (case i of 0 \<Rightarrow> Num 0 | Suc j \<Rightarrow> cumulative_i a j) (revenue_i a i)"
proof -
  from assms have lt: "i < length (projections a)"
    by (simp add: index_in_range)
  have "cumulative_before a i = (case i of 0 \<Rightarrow> Num 0 | Suc j \<Rightarrow> cumulative_i a j)"
    by (cases i) (simp_all add: cumulative_i_def)
  then have "cumulative_i a i =
      js_add (case i of 0 \<Rightarrow> Num 0 | Suc j \<Rightarrow> cumulative_i a j) (revenue_i a i)"
    by (simp add: cumulative_i_def)
  with projections_nth [OF lt] lt show ?thesis
    by simp
qed

theorem projections_follow_formulas_witness:
  "real 1 < projectLifetime rounding_example
   \<and> 1 < length (projections rounding_example)
   \<and> year (projections rounding_example ! 1) = 2027
   \<and> tariff (projections rounding_example ! 1) = 1
   \<and> yield (projections rounding_example ! 1) = 100
   \<and> revenue (projections rounding_example ! 1) = Num 100
   \<and> cumulativeRevenue (projections rounding_example ! 1) = Num 199"
proof -
  have h: "real 1 < projectLifetime rounding_example"
    by (simp add: rounding_example_def)
  have v: "toFixed2 (tariff_i rounding_example 1) = 1"
      "math_round (yield_i rounding_example 1) = 100"
      "js_round (revenue_i rounding_example 1) = Num 100"
      "js_round (cumulative_i rounding_example 1) = Num 199"
    by (simp_all add: cumulative_i_def revenue_i_def yield_i_def tariff_i_def
          rounding_example_def math_round_def toFixed2_def)
  from projections_follow_formulas [OF h] h v show ?thesis
    by simp
qed

text \<open>
  C2, as stated, fails on the displayed field: with a station cost of 100 and a first
  running sum of 99.6 the first entry shows a \<open>cumulativeRevenue\<close> of 100, which is
  not below the cost, yet the mark goes to the second entry.
\<close>

theorem breakEven_displayed_counterexample:
  "js_ge (cumulativeRevenue (projections rounding_example ! 0))
         (Num (stationCost rounding_example))
   \<and> \<not> isBreakEven (projections rounding_example ! 0)
   \<and> isBreakEven (projections rounding_example ! 1)"
  by (simp add: rounding_example_projections) (simp add: rounding_example_def)

text \<open>
  C2, amended. At most one entry has \<open>isBreakEven\<close> set, and an entry is marked
  exactly when it is the first year whose unrounded running sum is greater than or
  equal to the station cost; no later entry is marked.
\<close>

theorem breakEven_first_unrounded_crossing:
  assumes "k < length (projections a)"
  shows "length (filter isBreakEven (projections a)) \<le> 1
    \<and> (isBreakEven (projections a ! k) \<longleftrightarrow>
         js_ge (cumulative_i a k) (Num (stationCost a))
         \<and> (\<forall>j<k. \<not> js_ge (cumulative_i a j) (Num (stationCost a))))"
  using marked_iff [OF assms] marked_at_most_one [of a]
  by (simp add: reaches_def)

theorem breakEven_first_unrounded_crossing_witness:
  "1 < length (projections rounding_example)
   \<and> length (filter isBreakEven (projections rounding_example)) \<le> 1
   \<and> isBreakEven (projections rounding_example ! 1)
   \<and> js_ge (cumulative_i rounding_example 1) (Num (stationCost rounding_example))
   \<and> \<not> js_ge (cumulative_i rounding_example 0) (Num (stationCost rounding_example))"
proof -
  have h: "1 < length (projections rounding_example)"
    by (simp add: rounding_example_projections)
  have r: "js_ge (cumulative_i rounding_example 1) (Num (stationCost rounding_example))"
      "\<not> js_ge (cumulative_i rounding_example 0) (Num (stationCost rounding_example))"
    using rounding_example_reaches by (simp_all add: reaches_def)
  from breakEven_first_unrounded_crossing [OF h] h r show ?thesis
    by simp
qed

section \<open>Payback and ROI\<close>

lemma indexOf_first:
  "k < length xs \<Longrightarrow> (\<forall>j<k. xs ! j \<noteq> xs ! k) \<Longrightarrow> indexOf xs (xs ! k) = int k"
proof (induction xs arbitrary: k)
  case Nil
  then show ?case by simp
next
  case (Cons x xs)
  show ?case
  proof (cases k)
    case 0
    then show ?thesis by simp
  next
    case (Suc m)
    from Cons.prems(2) Suc have "x \<noteq> xs ! m"
      by auto
    moreover from Cons.prems Suc have "indexOf xs (xs ! m) = int m"
      by (intro Cons.IH) auto
    ultimately show ?thesis
      using Suc by (simp add: Let_def)
  qed
qed

lemma find_first:
  "k < length xs \<Longrightarrow> P (xs ! k) \<Longrightarrow> (\<forall>j<k. \<not> P (xs ! j)) \<Longrightarrow> List.find P xs = Some (xs ! k)"
  by (auto simp add: find_Some_iff)

lemma marked_is_first:
  assumes "k < length (projections a)" and "isBreakEven (projections a ! k)"
  shows "\<forall>j<k. \<not> isBreakEven (projections a ! j)"
proof (intro allI impI)
  fix j
  assume "j < k"
  with assms(1) have j: "j < length (projections a)"
    by simp
  from assms have "\<not> reaches a j"
    using \<open>j < k\<close> by (simp add: marked_iff)
  with j show "\<not> isBreakEven (projections a ! j)"
    by (simp add: marked_iff)
qed

lemma paybackPeriod_marked:
  assumes k: "k < length (projections a)" and m: "isBreakEven (projections a ! k)"
  shows "paybackPeriod a =
     Inr (if k = 0 then Num 1
          else js_add (Num (real k))
                 (js_div (js_sub (Num (stationCost a)) (cumulativeRevenue (projections a ! (k - 1))))
                    (revenue (projections a ! k))))"
proof -
  have first: "\<forall>j<k. \<not> isBreakEven (projections a ! j)"
    using marked_is_first [OF k m] .
  then have neq: "\<forall>j<k. projections a ! j \<noteq> projections a ! k"
    using m by metis
  have f: "List.find isBreakEven (projections a) = Some (projections a ! k)"
    using find_first [OF k m first] .
  have i: "indexOf (projections a) (projections a ! k) = int k"
    using indexOf_first [OF k neq] .
  have y: "year (projections a ! k) - 2026 = int k"
    by (simp add: projections_nth [OF k])
  show ?thesis
  proof (cases "k = 0")
    case True
    with f i show ?thesis
      by (simp add: paybackPeriod_def)
  next
    case False
    with k have "arr_get (projections a) (int k - 1) = Some (projections a ! (k - 1))"
      by (simp add: arr_get_def nat_diff_distrib')
    with False f i y show ?thesis
      by (simp add: paybackPeriod_def Let_def)
  qed
qed

lemma paybackPeriod_unmarked:
  assumes "\<forall>k<length (projections a). \<not> isBreakEven (projections a ! k)"
  shows "paybackPeriod a = Inr (Num (projectLifetime a))"
proof -
  from assms have "List.find isBreakEven (projections a) = None"
    by (auto simp add: find_None_iff in_set_conv_nth)
  then show ?thesis
    by (simp add: paybackPeriod_def)
qed

text \<open>
  C3, amended. When no entry is marked the payback period is the project lifetime.
  When the marked entry has index 0 it is 1. Otherwise it is the offset of the marked
  entry's year from 2026 plus (stationCost - C) / R, where C is the rounded
  \<open>cumulativeRevenue\<close> field of the entry before and R the rounded \<open>revenue\<close>
  field of the marked entry: the interpolation reads the emitted snapshot, not the
  full-precision values, and is not finite when R is 0.
\<close>

theorem paybackPeriod_cases:
  "((\<forall>k<length (projections a). \<not> isBreakEven (projections a ! k)) \<longrightarrow>
      paybackPeriod a = Inr (Num (projectLifetime a)))
   \<and> (k < length (projections a) \<and> isBreakEven (projections a ! k) \<longrightarrow>
      year (projections a ! k) - 2026 = int k
      \<and> paybackPeriod a =
          Inr (if k = 0 then Num 1
               else js_add (Num (of_int (year (projections a ! k) - 2026)))
                      (js_div
                         (js_sub (Num (stationCost a)) (js_round (cumulative_i a (k - 1))))
                         (js_round (revenue_i a k)))))"
proof (intro conjI impI)
  assume "\<forall>k<length (projections a). \<not> isBreakEven (projections a ! k)"
  then show "paybackPeriod a = Inr (Num (projectLifetime a))"
    by (rule paybackPeriod_unmarked)
next
  assume h: "k < length (projections a) \<and> isBreakEven (projections a ! k)"
  then show "year (projections a ! k) - 2026 = int k"
    by (simp add: projections_nth)
next
  assume h: "k < length (projections a) \<and> isBreakEven (projections a ! k)"
  then have k: "k < length (projections a)" and m: "isBreakEven (projections a ! k)"
    by simp_all
  from k have "k - 1 < length (projections a)"
    by simp
  then have c: "cumulativeRevenue (projections a ! (k - 1)) = js_round (cumulative_i a (k - 1))"
    by (simp add: projections_nth)
  have r: "revenue (projections a ! k) = js_round (revenue_i a k)"
    and y: "year (projections a ! k) - 2026 = int k"
    by (simp_all add: projections_nth [OF k])
  show "paybackPeriod a =
          Inr (if k = 0 then Num 1
               else js_add (Num (of_int (year (projections a ! k) - 2026)))
                      (js_div
                         (js_sub (Num (stationCost a)) (js_round (cumulative_i a (k - 1))))
                         (js_round (revenue_i a k))))"
    using paybackPeriod_marked [OF k m] c r y by simp
qed


lemma zero_cost_example_projections:
  "projections zero_cost_example =
     [\<lparr>year = 2026, tariff = 1, yield = 100, revenue = Num 100,
       cumulativeRevenue = Num 100, isBreakEven = True\<rparr>]"
  by (simp add: projections_def zero_cost_example_def projections_loop.simps
        Let_def math_round_def toFixed2_def)

lemma unreached_example_projections:
  "projections (rounding_example\<lparr>stationCost := 1000\<rparr>) =
     [\<lparr>year = 2026, tariff = 1, yield = 100, revenue = Num 100,
       cumulativeRevenue = Num 100, isBreakEven = False\<rparr>,
      \<lparr>year = 2027, tariff = 1, yield = 100, revenue = Num 100,
       cumulativeRevenue = Num 199, isBreakEven = False\<rparr>]"
  by (simp add: projections_def rounding_example_def projections_loop.simps
        Let_def math_round_def toFixed2_def)

lemma zero_lifetime_example_projections: "projections zero_lifetime_example = []"
  by (simp add: projections_def zero_lifetime_example_def DEFAULT_ASSUMPTIONS_def
        projections_loop.simps)

text \<open>
  C3, as stated with the unrounded \<open>cumulative_(idx-1)\<close> and \<open>revenue_idx\<close>, fails:
  with a yearly revenue of 60.4 and a cost of 100 the break-even index is 1 and the
  code returns 1 + (100 - 60) / 60 = 5/3, the stated formula 1 + 39.6 / 60.4 = 250/151.
\<close>

theorem paybackPeriod_unrounded_counterexample:
  "isBreakEven (projections interpolation_example ! 1)
   \<and> paybackPeriod interpolation_example = Inr (Num (5 / 3))
   \<and> js_add (Num 1)
        (js_div (js_sub (Num (stationCost interpolation_example))
                   (cumulative_i interpolation_example 0))
           (revenue_i interpolation_example 1)) = Num (250 / 151)
   \<and> paybackPeriod interpolation_example \<noteq>
       Inr (js_add (Num 1)
              (js_div (js_sub (Num (stationCost interpolation_example))
                         (cumulative_i interpolation_example 0))
                 (revenue_i interpolation_example 1)))"
proof -
  have "isBreakEven (projections interpolation_example ! 1)"
    by (simp add: interpolation_example_projections)
  moreover have "paybackPeriod interpolation_example = Inr (Num (5 / 3))"
    by (simp add: paybackPeriod_def interpolation_example_projections arr_get_def
          js_sub_def Let_def)
       (simp add: interpolation_example_def)
  moreover have "js_add (Num 1)
        (js_div (js_sub (Num (stationCost interpolation_example))
                   (cumulative_i interpolation_example 0))
           (revenue_i interpolation_example 1)) = Num (250 / 151)"
    by (simp add: cumulative_i_def revenue_i_def yield_i_def tariff_i_def js_sub_def
          interpolation_example_def)
  ultimately show ?thesis
    by simp
qed

theorem paybackPeriod_cases_witness:
  "filter isBreakEven (projections (rounding_example\<lparr>stationCost := 1000\<rparr>)) = []
   \<and> paybackPeriod (rounding_example\<lparr>stationCost := 1000\<rparr>) = Inr (Num 2)
   \<and> isBreakEven (projections zero_cost_example ! 0)
   \<and> paybackPeriod zero_cost_example = Inr (Num 1)
   \<and> isBreakEven (projections interpolation_example ! 1)
   \<and> paybackPeriod interpolation_example = Inr (Num (5 / 3))"
proof -
  let ?u = "rounding_example\<lparr>stationCost := 1000\<rparr>"
  have u: "\<forall>k<length (projections ?u). \<not> isBreakEven (projections ?u ! k)"
    by (simp add: unreached_example_projections less_Suc_eq eval_nat_numeral)
  have ul: "projectLifetime ?u = 2"
    by (simp add: rounding_example_def)
  have z: "0 < length (projections zero_cost_example)
      \<and> isBreakEven (projections zero_cost_example ! 0)"
    by (simp add: zero_cost_example_projections)
  have i: "1 < length (projections interpolation_example)
      \<and> isBreakEven (projections interpolation_example ! 1)"
    by (simp add: interpolation_example_projections)
  have v: "js_add (Num (of_int (year (projections interpolation_example ! 1) - 2026)))
        (js_div (js_sub (Num (stationCost interpolation_example))
                   (js_round (cumulative_i interpolation_example (1 - 1))))
           (js_round (revenue_i interpolation_example 1))) = Num (5 / 3)"
    by (simp add: interpolation_example_projections)
       (simp add: cumulative_i_def revenue_i_def yield_i_def tariff_i_def js_sub_def
          interpolation_example_def math_round_def)
  from paybackPeriod_cases [of ?u 0] u ul
  have "paybackPeriod ?u = Inr (Num 2)"
    by simp
  moreover from paybackPeriod_cases [of zero_cost_example 0] z
  have "paybackPeriod zero_cost_example = Inr (Num 1)"
    by simp
  moreover from paybackPeriod_cases [of interpolation_example 1] i v
  have "paybackPeriod interpolation_example = Inr (Num (5 / 3))"
    by simp
  ultimately show ?thesis
    using z i by (simp add: unreached_example_projections)
qed

text \<open>
  C4. The code at the failing inputs: with a lifetime of 0 the projection sequence is
  empty, \<open>totalRoi\<close> reads a field of \<^verbatim>\<open>projections[-1]\<close> and raises, while
  \<open>paybackPeriod\<close> returns the lifetime, 0; with a station cost of 0 the ROI division is
  not guarded and yields \<^verbatim>\<open>Infinity\<close>.
\<close>

theorem totalRoi_unguarded:
  "projections zero_lifetime_example = []
   \<and> totalRoi zero_lifetime_example = Inl TypeError
   \<and> paybackPeriod zero_lifetime_example = Inr (Num 0)
   \<and> totalRoi zero_cost_example = Inr PosInfinity"
proof -
  have "totalRoi zero_lifetime_example = Inl TypeError"
    by (simp add: totalRoi_def zero_lifetime_example_projections arr_get_def)
  moreover have "paybackPeriod zero_lifetime_example = Inr (Num 0)"
    by (simp add: paybackPeriod_def zero_lifetime_example_projections)
       (simp add: zero_lifetime_example_def)
  moreover have "totalRoi zero_cost_example = Inr PosInfinity"
    by (simp add: totalRoi_def zero_cost_example_projections arr_get_def Let_def)
       (simp add: zero_cost_example_def)
  ultimately show ?thesis
    by (simp add: zero_lifetime_example_projections)
qed


lemma nonpositive_lifetime:
  assumes "projectLifetime a \<le> 0"
  shows "projections a = []" and "totalRoi a = Inl TypeError"
    and "paybackPeriod a = Inr (Num (projectLifetime a))"
proof -
  from assms have "\<not> real 0 < projectLifetime a"
    by simp
  then show e: "projections a = []"
    unfolding projections_def by (rule loop_stop)
  show "totalRoi a = Inl TypeError"
    by (simp add: totalRoi_def e arr_get_def)
  show "paybackPeriod a = Inr (Num (projectLifetime a))"
    by (simp add: paybackPeriod_def e)
qed

lemma revenue_i_finite:
  "usdSomExchange a \<noteq> 0 \<Longrightarrow>
   revenue_i a i = Num (yield_i a i * tariff_i a i / usdSomExchange a)"
  by (simp add: revenue_i_def)

lemma cumulative_before_finite:
  "usdSomExchange a \<noteq> 0 \<Longrightarrow>
   cumulative_before a n = Num (\<Sum>k<n. yield_i a k * tariff_i a k / usdSomExchange a)"
  by (induction n) (simp_all add: revenue_i_finite)

lemma cumulative_i_finite:
  "usdSomExchange a \<noteq> 0 \<Longrightarrow>
   cumulative_i a i = Num (\<Sum>k<Suc i. yield_i a k * tariff_i a k / usdSomExchange a)"
  by (simp add: cumulative_i_def cumulative_before_finite revenue_i_finite)

section \<open>The default example\<close>

lemma default_reaches:
  "\<not> reaches DEFAULT_ASSUMPTIONS 0" "\<not> reaches DEFAULT_ASSUMPTIONS 1"
  "\<not> reaches DEFAULT_ASSUMPTIONS 2" "\<not> reaches DEFAULT_ASSUMPTIONS 3"
  "\<not> reaches DEFAULT_ASSUMPTIONS 4" "\<not> reaches DEFAULT_ASSUMPTIONS 5"
  "reaches DEFAULT_ASSUMPTIONS 6"
  by (simp_all add: reaches_def cumulative_i_def revenue_i_def yield_i_def tariff_i_def
        DEFAULT_ASSUMPTIONS_def eval_nat_numeral)

lemma default_length: "length (projections DEFAULT_ASSUMPTIONS) = 25"
  by (simp add: projections_length DEFAULT_ASSUMPTIONS_def)

lemma default_first_year:
  "js_round (revenue_i DEFAULT_ASSUMPTIONS 0) = Num 85977"
  "js_round (cumulative_i DEFAULT_ASSUMPTIONS 0) = Num 85977"
  "js_round (Num (1683000 * (447 / 100) / (875 / 10))) = Num 85977"
  by (simp_all add: cumulative_i_def revenue_i_def yield_i_def tariff_i_def
        DEFAULT_ASSUMPTIONS_def math_round_def)

lemma default_cumulative_5:
  "js_round (cumulative_i DEFAULT_ASSUMPTIONS 5) = Num 605967"
proof -
  define x where "x = (\<Sum>k<Suc 5. yield_i DEFAULT_ASSUMPTIONS k
      * tariff_i DEFAULT_ASSUMPTIONS k / usdSomExchange DEFAULT_ASSUMPTIONS)"
  have "usdSomExchange DEFAULT_ASSUMPTIONS \<noteq> 0"
    by (simp add: DEFAULT_ASSUMPTIONS_def)
  then have c: "cumulative_i DEFAULT_ASSUMPTIONS 5 = Num x"
    unfolding x_def by (rule cumulative_i_finite)
  have lo: "605967 \<le> x + 1 / 2" and hi: "x + 1 / 2 < 605967 + 1"
    unfolding x_def
    by (simp_all add: yield_i_def tariff_i_def DEFAULT_ASSUMPTIONS_def eval_nat_numeral)
  have "\<lfloor>x + 1 / 2\<rfloor> = 605967"
    by (rule floor_unique) (use lo hi in simp_all)
  with c show ?thesis
    by (simp add: math_round_def)
qed

lemma default_cumulative_6:
  "js_round (cumulative_i DEFAULT_ASSUMPTIONS 6) = Num 730796"
proof -
  define x where "x = (\<Sum>k<Suc 6. yield_i DEFAULT_ASSUMPTIONS k
      * tariff_i DEFAULT_ASSUMPTIONS k / usdSomExchange DEFAULT_ASSUMPTIONS)"
  have "usdSomExchange DEFAULT_ASSUMPTIONS \<noteq> 0"
    by (simp add: DEFAULT_ASSUMPTIONS_def)
  then have c: "cumulative_i DEFAULT_ASSUMPTIONS 6 = Num x"
    unfolding x_def by (rule cumulative_i_finite)
  have lo: "730796 \<le> x + 1 / 2" and hi: "x + 1 / 2 < 730796 + 1"
    unfolding x_def
    by (simp_all add: yield_i_def tariff_i_def DEFAULT_ASSUMPTIONS_def eval_nat_numeral)
  have "\<lfloor>x + 1 / 2\<rfloor> = 730796"
    by (rule floor_unique) (use lo hi in simp_all)
  with c show ?thesis
    by (simp add: math_round_def)
qed

text \<open>
  C5, as stated, fails: the first-year revenue of the default assumptions does not
  round to 85,919.
\<close>

theorem default_revenue_counterexample:
  "revenue (projections DEFAULT_ASSUMPTIONS ! 0) \<noteq> Num 85919"
proof -
  have "0 < length (projections DEFAULT_ASSUMPTIONS)"
    by (simp add: default_length)
  then have "revenue (projections DEFAULT_ASSUMPTIONS ! 0) = Num 85977"
    by (simp add: projections_nth default_first_year)
  then show ?thesis
    by simp
qed

text \<open>
  C5, amended. With the default assumptions the year-index-0 revenue is
  (1683000 * 4.47) / 87.5 and rounds to 85,977, as does the first cumulative value;
  break-even is marked at index 6 (year 2032), the first year whose cumulative
  revenue (730,796 rounded, after 605,967) reaches 694,000.
\<close>

theorem default_example:
  "revenue (projections DEFAULT_ASSUMPTIONS ! 0)
     = js_round (Num (1683000 * (447 / 100) / (875 / 10)))
   \<and> revenue (projections DEFAULT_ASSUMPTIONS ! 0) = Num 85977
   \<and> cumulativeRevenue (projections DEFAULT_ASSUMPTIONS ! 0) = Num 85977
   \<and> \<not> isBreakEven (projections DEFAULT_ASSUMPTIONS ! 5)
   \<and> cumulativeRevenue (projections DEFAULT_ASSUMPTIONS ! 5) = Num 605967
   \<and> isBreakEven (projections DEFAULT_ASSUMPTIONS ! 6)
   \<and> cumulativeRevenue (projections DEFAULT_ASSUMPTIONS ! 6) = Num 730796
   \<and> year (projections DEFAULT_ASSUMPTIONS ! 6) = 2032
   \<and> List.find isBreakEven (projections DEFAULT_ASSUMPTIONS)
       = Some (projections DEFAULT_ASSUMPTIONS ! 6)"
proof -
  have l: "0 < length (projections DEFAULT_ASSUMPTIONS)"
      "5 < length (projections DEFAULT_ASSUMPTIONS)"
      "6 < length (projections DEFAULT_ASSUMPTIONS)"
    by (simp_all add: default_length)
  have before: "\<not> reaches DEFAULT_ASSUMPTIONS j" if "j < 6" for j
  proof -
    from that have "j = 0 \<or> j = 1 \<or> j = 2 \<or> j = 3 \<or> j = 4 \<or> j = 5"
      by linarith
    then show ?thesis
      using default_reaches by auto
  qed
  have "revenue (projections DEFAULT_ASSUMPTIONS ! 0) = Num 85977"
      "cumulativeRevenue (projections DEFAULT_ASSUMPTIONS ! 0) = Num 85977"
    by (simp_all add: projections_nth [OF l(1)] default_first_year)
  moreover have "\<not> isBreakEven (projections DEFAULT_ASSUMPTIONS ! 5)"
      "cumulativeRevenue (projections DEFAULT_ASSUMPTIONS ! 5) = Num 605967"
    by (simp_all add: projections_nth [OF l(2)] default_reaches default_cumulative_5)
  moreover have "isBreakEven (projections DEFAULT_ASSUMPTIONS ! 6)"
      "cumulativeRevenue (projections DEFAULT_ASSUMPTIONS ! 6) = Num 730796"
      "year (projections DEFAULT_ASSUMPTIONS ! 6) = 2032"
    by (simp_all add: projections_nth [OF l(3)] default_reaches default_cumulative_6 before)
  moreover have "revenue (projections DEFAULT_ASSUMPTIONS ! 0)
      = js_round (Num (1683000 * (447 / 100) / (875 / 10)))"
    by (simp only: projections_nth [OF l(1)] default_first_year YearProjection.simps)
  moreover have "List.find isBreakEven (projections DEFAULT_ASSUMPTIONS)
      = Some (projections DEFAULT_ASSUMPTIONS ! 6)"
  proof (rule find_first [OF l(3)])
    show "isBreakEven (projections DEFAULT_ASSUMPTIONS ! 6)"
      by (simp add: projections_nth [OF l(3)] default_reaches before)
    show "\<forall>j<6. \<not> isBreakEven (projections DEFAULT_ASSUMPTIONS ! j)"
    proof (intro allI impI)
      fix j :: nat
      assume j: "j < 6"
      with l(3) have "j < length (projections DEFAULT_ASSUMPTIONS)"
        by simp
      then show "\<not> isBreakEven (projections DEFAULT_ASSUMPTIONS ! j)"
        using before [OF j] by (simp add: projections_nth)
    qed
  qed
  ultimately show ?thesis
    by blast
qed

section \<open>Monotone cumulative revenue\<close>

lemma math_round_mono: "x \<le> y \<Longrightarrow> math_round x \<le> math_round y"
  by (simp add: math_round_def floor_mono)

lemma overflow_bound_pos: "1 < overflow_bound"
  by (simp add: overflow_bound_def)

lemma js_fin_in_range: "- overflow_bound < x \<Longrightarrow> x < overflow_bound \<Longrightarrow> js_fin x = Num x"
  by (simp add: js_fin_def)

lemma js_fin_nonneg: "0 \<le> x \<Longrightarrow> nonneg (js_fin x)"
  using overflow_bound_pos by (simp add: js_fin_def)

lemma js_fin_ge: "0 \<le> y \<Longrightarrow> y \<le> x \<Longrightarrow> js_ge (js_fin x) (Num y)"
  using overflow_bound_pos by (simp add: js_fin_def)

lemma d_mul_nonneg:
  "nonneg x \<Longrightarrow> nonneg y \<Longrightarrow> d_mul x y \<noteq> NaN \<Longrightarrow> nonneg (d_mul x y)"
  by (cases x; cases y) (auto simp add: d_mul_def js_fin_nonneg split: if_splits)

lemma d_div_nonneg: "nonneg v \<Longrightarrow> 0 < e \<Longrightarrow> nonneg (d_div v (Num e))"
  by (cases v) (auto simp add: d_div_def js_fin_nonneg)

lemma d_add_nonneg: "nonneg x \<Longrightarrow> nonneg y \<Longrightarrow> nonneg (d_add x y)"
  by (cases x; cases y) (auto simp add: d_add_def js_fin_nonneg)

lemma d_add_ge: "nonneg x \<Longrightarrow> nonneg y \<Longrightarrow> js_ge (d_add x y) x"
  by (cases x; cases y) (auto simp add: d_add_def js_fin_ge)

lemma js_pow_nonneg: "nonneg x \<Longrightarrow> nonneg (js_pow x n)"
  by (cases x) (auto simp add: js_pow_def js_fin_nonneg)

lemma js_ge_trans: "js_ge x y \<Longrightarrow> js_ge y z \<Longrightarrow> js_ge x z"
  by (cases x; cases y; cases z) auto

lemma js_ge_round: "js_ge x y \<Longrightarrow> js_ge (js_round x) (js_round y)"
  by (cases x; cases y) (auto simp add: math_round_def floor_mono)

lemma yield_d_nonneg:
  assumes "documented_domain a" and "annualYieldYear1 a < overflow_bound"
  shows "is_Num (yield_d_i a k) \<and> nonneg (yield_d_i a k)"
proof -
  let ?b = "1 - panelDegradation a"
  from assms(1) have b: "0 < ?b" "?b \<le> 1" and y: "0 \<le> annualYieldYear1 a"
    by (simp_all add: documented_domain_def)
  from b have base: "d_sub (Num 1) (Num (panelDegradation a)) = Num ?b"
    using overflow_bound_pos by (simp add: d_sub_def js_sub_def js_fin_def)
  from b have p: "0 \<le> ?b ^ k" "?b ^ k \<le> 1"
    by (simp_all add: power_le_one)
  then have "js_pow (Num ?b) k = Num (?b ^ k)"
    using overflow_bound_pos by (simp add: js_pow_def js_fin_def)
  moreover have "0 \<le> annualYieldYear1 a * ?b ^ k"
    using y p by simp
  moreover have "annualYieldYear1 a * ?b ^ k \<le> annualYieldYear1 a * 1"
    using y p by (intro mult_left_mono) simp_all
  ultimately show ?thesis
    using assms(2) overflow_bound_pos
    by (simp add: yield_d_i_def base d_mul_def js_fin_def)
qed

lemma tariff_d_nonneg:
  assumes "documented_domain a" and "is_Num (tariff_d_i a k)"
  shows "nonneg (tariff_d_i a k)"
proof -
  from assms(1) have "0 \<le> 1 + inflationRate a" and bt: "0 \<le> baseTariff a"
    by (simp_all add: documented_domain_def)
  then have "nonneg (d_add (Num 1) (Num (inflationRate a)))"
    by (simp add: d_add_def js_fin_nonneg)
  then have "nonneg (js_pow (d_add (Num 1) (Num (inflationRate a))) k)"
    by (rule js_pow_nonneg)
  moreover from bt have "nonneg (Num (baseTariff a))"
    by simp
  moreover from assms(2) have "tariff_d_i a k \<noteq> NaN"
    by auto
  ultimately show ?thesis
    unfolding tariff_d_i_def by (intro d_mul_nonneg)
qed

lemma revenue_d_nonneg:
  assumes "documented_domain a" and "annualYieldYear1 a < overflow_bound"
    and "is_Num (tariff_d_i a k)"
  shows "nonneg (revenue_d_i a k)"
proof -
  from yield_d_nonneg [OF assms(1,2), of k]
  obtain y where y: "yield_d_i a k = Num y" "0 \<le> y"
    by (cases "yield_d_i a k") auto
  from tariff_d_nonneg [OF assms(1,3)] assms(3)
  obtain t where t: "tariff_d_i a k = Num t" "0 \<le> t"
    by (cases "tariff_d_i a k") auto
  from y t have "nonneg (d_mul (yield_d_i a k) (tariff_d_i a k))"
    by (simp add: d_mul_def js_fin_nonneg)
  moreover from assms(1) have "0 < usdSomExchange a"
    by (simp add: documented_domain_def)
  ultimately show ?thesis
    unfolding revenue_d_i_def by (rule d_div_nonneg)
qed

lemma tariffs_finite_nth: "tariffs_finite a n \<Longrightarrow> k < n \<Longrightarrow> is_Num (tariff_d_i a k)"
  by (induction n) (auto simp add: less_Suc_eq)

lemma cum_d_nonneg:
  assumes "documented_domain a" and "annualYieldYear1 a < overflow_bound"
    and "tariffs_finite a n"
  shows "k \<le> n \<Longrightarrow> nonneg (cum_d_from a 0 (Num 0) k)"
proof (induction k)
  case 0
  show ?case by simp
next
  case (Suc k)
  then have "is_Num (tariff_d_i a k)"
    using assms(3) by (intro tariffs_finite_nth [of a n]) simp_all
  then have "nonneg (revenue_d_i a k)"
    by (rule revenue_d_nonneg [OF assms(1,2)])
  with Suc show ?case
    by (simp add: d_add_nonneg)
qed

lemma cum_d_step_ge:
  assumes "documented_domain a" and "annualYieldYear1 a < overflow_bound"
    and "tariffs_finite a n" and "k < n"
  shows "js_ge (cum_d_from a 0 (Num 0) (Suc k)) (cum_d_from a 0 (Num 0) k)"
proof -
  from assms(3,4) have "is_Num (tariff_d_i a k)"
    by (rule tariffs_finite_nth)
  then have "nonneg (revenue_d_i a k)"
    by (rule revenue_d_nonneg [OF assms(1,2)])
  moreover from assms(4) have "nonneg (cum_d_from a 0 (Num 0) k)"
    by (intro cum_d_nonneg [OF assms(1,2,3)]) simp
  ultimately show ?thesis
    by (simp add: d_add_ge)
qed

lemma cum_d_mono:
  assumes "documented_domain a" and "annualYieldYear1 a < overflow_bound"
    and "tariffs_finite a n"
  shows "i \<le> j \<Longrightarrow> j \<le> n \<Longrightarrow>
    js_ge (cum_d_from a 0 (Num 0) j) (cum_d_from a 0 (Num 0) i)"
proof (induction j)
  case 0
  then show ?case by simp
next
  case (Suc j)
  show ?case
  proof (cases "i = Suc j")
    case True
    from Suc.prems(2) have "nonneg (cum_d_from a 0 (Num 0) (Suc j))"
      by (rule cum_d_nonneg [OF assms])
    with True show ?thesis
      by (cases "cum_d_from a 0 (Num 0) (Suc j)") (simp_all del: cum_d_from.simps)
  next
    case False
    with Suc.prems have "i \<le> j" "j \<le> n" "j < n"
      by simp_all
    from Suc.IH [OF this(1,2)] cum_d_step_ge [OF assms this(3)] show ?thesis
      by (rule js_ge_trans [rotated])
  qed
qed

lemma overflow_example_projections:
  "map cumulativeRevenue_d (projections_d overflow_example) = [Num 0, Num 0, NaN]"
  by (simp add: projections_d_def overflow_example_def projections_loop_d.simps
        Let_def math_round_def d_add_def d_sub_def js_sub_def d_mul_def d_div_def
        js_pow_def js_fin_def overflow_bound_def)

lemma cum_d_from_shift:
  "cum_d_from a (Suc i) (d_add c (revenue_d_i a i)) k = cum_d_from a i c (Suc k)"
  by (induction k) simp_all

lemma loop_d_step:
  "real i < projectLifetime a \<Longrightarrow>
   projections_loop_d a i c f =
     \<lparr>year_d = 2026 + int i,
      tariff_d = js_toFixed2 (tariff_d_i a i),
      yield_d = js_round (yield_d_i a i),
      revenue_d = js_round (revenue_d_i a i),
      cumulativeRevenue_d = js_round (d_add c (revenue_d_i a i)),
      isBreakEven_d = (\<not> f \<and> js_ge (d_add c (revenue_d_i a i)) (Num (stationCost a)))\<rparr>
     # projections_loop_d a (Suc i) (d_add c (revenue_d_i a i))
         (f \<or> js_ge (d_add c (revenue_d_i a i)) (Num (stationCost a)))"
proof -
  have b: "(f \<or> \<not> f \<and> g) = (f \<or> g)" for g
    by blast
  assume "real i < projectLifetime a"
  then show ?thesis
    by (subst projections_loop_d.simps)
       (simp add: Let_def yield_d_i_def tariff_d_i_def revenue_d_i_def b)
qed

lemma loop_d_stop:
  "\<not> real i < projectLifetime a \<Longrightarrow> projections_loop_d a i c f = []"
  by (subst projections_loop_d.simps) simp

lemma loop_d_length:
  "length (projections_loop_d a i c f) = nat \<lceil>projectLifetime a\<rceil> - i"
proof (induction "nat \<lceil>projectLifetime a\<rceil> - i" arbitrary: i c f)
  case 0
  then have "\<lceil>projectLifetime a\<rceil> \<le> int i"
    by linarith
  then have "\<not> real i < projectLifetime a"
    by (simp add: ceiling_le_iff)
  with 0 show ?case
    by (simp add: loop_d_stop)
next
  case (Suc n)
  then have "int i < \<lceil>projectLifetime a\<rceil>"
    by linarith
  then have lt: "real i < projectLifetime a"
    by (simp add: less_ceiling_iff)
  from Suc.hyps(2) have "n = nat \<lceil>projectLifetime a\<rceil> - Suc i"
    by linarith
  from Suc.hyps(1) [OF this] Suc.hyps(2) show ?case
    by (simp add: loop_d_step [OF lt])
qed

lemma loop_d_cumulative_nth:
  "k < nat \<lceil>projectLifetime a\<rceil> - i \<Longrightarrow>
   cumulativeRevenue_d (projections_loop_d a i c f ! k) = js_round (cum_d_from a i c (Suc k))"
proof (induction k arbitrary: i c f)
  case 0
  then have "int i < \<lceil>projectLifetime a\<rceil>"
    by linarith
  then have lt: "real i < projectLifetime a"
    by (simp add: less_ceiling_iff)
  show ?case
    by (simp add: loop_d_step [OF lt])
next
  case (Suc k)
  then have "int i < \<lceil>projectLifetime a\<rceil>"
    by linarith
  then have lt: "real i < projectLifetime a"
    by (simp add: less_ceiling_iff)
  from Suc.prems have "k < nat \<lceil>projectLifetime a\<rceil> - Suc i"
    by linarith
  from Suc.IH [OF this] show ?case
    by (simp add: loop_d_step [OF lt] cum_d_from_shift del: cum_d_from.simps(2))
qed

lemma projections_d_length: "length (projections_d a) = nat \<lceil>projectLifetime a\<rceil>"
  by (simp add: projections_d_def loop_d_length)

lemma projections_d_cumulative:
  assumes "k < length (projections_d a)"
  shows "cumulativeRevenue_d (projections_d a ! k)
    = js_round (cum_d_from a 0 (Num 0) (Suc k))"
proof -
  from assms have "k < nat \<lceil>projectLifetime a\<rceil> - 0"
    by (simp add: projections_d_length)
  from loop_d_cumulative_nth [OF this, of "Num 0" False] show ?thesis
    by (simp add: projections_d_def del: cum_d_from.simps(2))
qed

text \<open>On an input where nothing overflows the two loops show the same sums.\<close>

lemma rounding_example_agrees:
  "map cumulativeRevenue_d (projections_d rounding_example)
     = map cumulativeRevenue (projections rounding_example)"
  by (simp add: rounding_example_projections)
     (simp add: projections_d_def rounding_example_def projections_loop_d.simps
        Let_def math_round_def d_add_def d_sub_def js_sub_def d_mul_def d_div_def
        js_pow_def js_fin_def overflow_bound_def)

text \<open>
  C6, as stated, fails inside the documented domain: with no yield and an inflation
  rate of \<open>1e200\<close> the inflation factor of the third year is \<^verbatim>\<open>Infinity\<close>, the
  revenue \<open>0 * Infinity\<close> is \<^verbatim>\<open>NaN\<close>, and the \<open>cumulativeRevenue\<close> fields are
  0, 0, \<^verbatim>\<open>NaN\<close>.
\<close>

theorem cumulativeRevenue_overflow_counterexample:
  "documented_domain overflow_example
   \<and> cumulativeRevenue_d (projections_d overflow_example ! 1) = Num 0
   \<and> cumulativeRevenue_d (projections_d overflow_example ! 2) = NaN
   \<and> \<not> js_ge (cumulativeRevenue_d (projections_d overflow_example ! 2))
          (cumulativeRevenue_d (projections_d overflow_example ! 1))"
proof -
  have d: "documented_domain overflow_example"
    by (simp add: documented_domain_def overflow_example_def)
  have l: "length (projections_d overflow_example) = 3"
    by (simp add: projections_d_length overflow_example_def)
  have c: "cumulativeRevenue_d (projections_d overflow_example ! 1) = Num 0"
      "cumulativeRevenue_d (projections_d overflow_example ! 2) = NaN"
    using overflow_example_projections l
    by (simp_all add: nth_map [symmetric] del: nth_map)
  with d show ?thesis
    by simp
qed

text \<open>
  C6, amended. In the documented domain, with a first-year yield inside the range of
  a double and as long as the escalated tariff \<open>baseTariff * (1 + inflationRate) ^ k\<close>
  of every year up to \<open>j\<close> is finite, the \<open>cumulativeRevenue\<close> field of the entry
  \<open>j\<close> is not below that of an earlier entry \<open>i\<close>.
\<close>

theorem cumulativeRevenue_monotone_in_range:
  assumes "documented_domain a" and "annualYieldYear1 a < overflow_bound"
    and "tariffs_finite a (Suc j)" and "i \<le> j" and "j < length (projections_d a)"
  shows "js_ge (cumulativeRevenue_d (projections_d a ! j))
           (cumulativeRevenue_d (projections_d a ! i))"
proof -
  from assms(4,5) have i: "i < length (projections_d a)"
    by simp
  from assms(4) have "Suc i \<le> Suc j" "Suc j \<le> Suc j"
    by simp_all
  then have "js_ge (cum_d_from a 0 (Num 0) (Suc j)) (cum_d_from a 0 (Num 0) (Suc i))"
    by (rule cum_d_mono [OF assms(1,2,3)])
  then have "js_ge (js_round (cum_d_from a 0 (Num 0) (Suc j)))
      (js_round (cum_d_from a 0 (Num 0) (Suc i)))"
    by (rule js_ge_round)
  then show ?thesis
    by (simp only: projections_d_cumulative [OF i] projections_d_cumulative [OF assms(5)])
qed

theorem cumulativeRevenue_monotone_in_range_witness:
  "documented_domain rounding_example
   \<and> annualYieldYear1 rounding_example < overflow_bound
   \<and> tariffs_finite rounding_example (Suc 1)
   \<and> (0::nat) \<le> 1
   \<and> 1 < length (projections_d rounding_example)
   \<and> js_ge (cumulativeRevenue_d (projections_d rounding_example ! 1))
        (cumulativeRevenue_d (projections_d rounding_example ! 0))"
proof -
  have d: "documented_domain rounding_example"
    by (simp add: documented_domain_def rounding_example_def)
  have y: "annualYieldYear1 rounding_example < overflow_bound"
    by (simp add: rounding_example_def overflow_bound_def)
  have t: "tariffs_finite rounding_example (Suc 1)"
    by (simp add: tariff_d_i_def rounding_example_def d_add_def d_mul_def js_pow_def
          js_fin_def overflow_bound_def)
  have o: "(0::nat) \<le> 1"
    by simp
  have l: "1 < length (projections_d rounding_example)"
    by (simp add: projections_d_length rounding_example_def)
  from cumulativeRevenue_monotone_in_range [OF d y t o l] d y t l show ?thesis
    by simp
qed

section \<open>Horizon silhouette\<close>

lemma dummy_loop_unfold:
  "dummy_loop a =
     map synthetic_point (map (\<lambda>k. a + 5 * int k) [0..<nat ((185 - a) div 5)])"
proof (induction "nat ((185 - a) div 5)" arbitrary: a)
  case 0
  then have "\<not> a \<le> 180"
    by simp
  with 0 show ?case
    by (subst dummy_loop.simps) simp
next
  case (Suc n)
  then have le: "a \<le> 180"
    by simp
  have d: "(185 - (a + 5)) div 5 = (185 - a) div 5 - 1"
    by linarith
  with Suc.hyps(2) have n: "n = nat ((185 - (a + 5)) div 5)"
    by linarith
  have u: "[0..<Suc n] = 0 # map Suc [0..<n]"
    by (simp add: upt_conv_Cons map_Suc_upt del: upt_Suc)
  have "dummy_loop a = synthetic_point a # dummy_loop (a + 5)"
    using le by (subst dummy_loop.simps) (simp add: synthetic_point_def Let_def)
  also have "dummy_loop (a + 5) =
      map synthetic_point (map (\<lambda>k. a + 5 + 5 * int k) [0..<n])"
    using Suc.hyps(1) [OF n] n by simp
  finally show ?case
    unfolding Suc.hyps(2) [symmetric] u
    by (simp add: comp_def algebra_simps)
qed

lemma dummy_loop_profile: "dummy_loop (- 180) = synthetic_profile"
  by (simp add: dummy_loop_unfold synthetic_profile_def)

lemma effectiveHorizon_fallback:
  "effectiveHorizon None = synthetic_profile"
  "effectiveHorizon (Some []) = synthetic_profile"
  by (simp_all add: effectiveHorizon_def dummy_loop_profile)

lemma synthetic_profile_length: "length synthetic_profile = 73"
  by (simp add: synthetic_profile_def)

lemma effectiveHorizon_nonempty: "effectiveHorizon horizon \<noteq> []"
proof (cases horizon)
  case None
  have "length (effectiveHorizon None) = 73"
    by (simp add: effectiveHorizon_fallback synthetic_profile_length)
  with None show ?thesis
    by auto
next
  case (Some hs)
  show ?thesis
  proof (cases "hs = []")
    case True
    have "length (effectiveHorizon (Some [])) = 73"
      by (simp add: effectiveHorizon_fallback synthetic_profile_length)
    with Some True show ?thesis
      by auto
  next
    case False
    from False have "sort_key azimuth hs \<noteq> []"
      by (metis length_0_conv length_sort)
    with Some False show ?thesis
      by (simp add: effectiveHorizon_def)
  qed
qed

lemma rim_loop_lines: "list_all is_LineTo (rim_loop a lo)"
proof (induction a lo rule: rim_loop.induct)
  case (1 a lo)
  show ?case
  proof (cases "lo \<le> a")
    case True
    with "1.IH" [OF True refl] show ?thesis
      by (subst rim_loop.simps) (simp add: Let_def)
  next
    case False
    then show ?thesis
      by (subst rim_loop.simps) simp
  qed
qed

lemma horizonPath_closed:
  assumes "eh \<noteq> []"
  shows "closed_path (horizonPath eh)"
proof -
  have "list_all is_LineTo (map (\<lambda>p. LineTo (fst p) (snd p)) ps)" for ps :: "(real \<times> real) list"
    by (induction ps) simp_all
  with assms rim_loop_lines show ?thesis
    by (simp add: horizonPath_def Let_def butlast_append list_all_append
          del: One_nat_def)
qed

lemma chart_horizonPath_closed: "closed_path (chart_horizonPath horizon)"
  unfolding chart_horizonPath_def
  by (rule horizonPath_closed) (rule effectiveHorizon_nonempty)

lemma closed_path_nonempty: "closed_path p \<Longrightarrow> p \<noteq> []"
  by (cases p) simp_all

lemma distinct_keys_sort_key:
  "distinct (map azimuth (sort_key azimuth zs)) = distinct (map azimuth zs)"
proof -
  have "mset (map azimuth (sort_key azimuth zs)) = mset (map azimuth zs)"
    by simp
  then show ?thesis
    by (rule mset_eq_imp_distinct_iff)
qed

lemma sort_key_permutation:
  assumes "mset ys = mset xs" and "distinct (map azimuth xs)"
  shows "sort_key azimuth ys = sort_key azimuth xs"
proof -
  from assms(1) have s: "set ys = set xs"
    by (rule mset_eq_setD)
  from assms(2) have "inj_on azimuth (set xs)"
    by (simp add: distinct_map)
  with s have i: "inj_on azimuth (set (sort_key azimuth ys) \<union> set (sort_key azimuth xs))"
    by simp
  from assms(1) have "mset (map azimuth ys) = mset (map azimuth xs)"
    by simp
  then have "distinct (map azimuth ys) = distinct (map azimuth xs)"
    by (rule mset_eq_imp_distinct_iff)
  with assms(2) have "distinct (map azimuth ys)"
    by simp
  then have dy: "distinct (map azimuth (sort_key azimuth ys))"
    by (simp only: distinct_keys_sort_key)
  from assms(2) have dx: "distinct (map azimuth (sort_key azimuth xs))"
    by (simp only: distinct_keys_sort_key)
  have sy: "sorted (map azimuth (sort_key azimuth ys))"
    by simp
  have sx: "sorted (map azimuth (sort_key azimuth xs))"
    by simp
  from s have e: "set (sort_key azimuth ys) = set (sort_key azimuth xs)"
    by simp
  from i sy dy sx dx e show ?thesis
    by (rule map_sorted_distinct_set_unique)
qed

text \<open>
  C8. For samples with pairwise distinct azimuths, the silhouette path built from any
  permutation of them is the path built from the same samples sorted ascending by
  azimuth beforehand.
\<close>

theorem horizonPath_order_invariant:
  assumes "mset ys = mset xs" and "distinct (map azimuth xs)"
    and "mset zs = mset xs" and "sorted (map azimuth zs)"
  shows "effectiveHorizon (Some ys) = effectiveHorizon (Some zs)
    \<and> chart_horizonPath (Some ys) = chart_horizonPath (Some zs)
    \<and> chart_horizonPath (Some zs) = chart_horizonPath (Some (sort_key azimuth xs))"
proof -
  from assms(1) have ly: "length ys = length xs"
    by (rule mset_eq_length)
  from assms(3) have lz: "length zs = length xs"
    by (rule mset_eq_length)
  have "sort_key azimuth ys = sort_key azimuth xs"
    using assms(1,2) by (rule sort_key_permutation)
  moreover have "sort_key azimuth zs = sort_key azimuth xs"
    using assms(3,2) by (rule sort_key_permutation)
  moreover have "sort_key azimuth (sort_key azimuth xs) = sort_key azimuth xs"
    by (rule sort_key_id_if_sorted) simp
  ultimately have e: "effectiveHorizon (Some ys) = effectiveHorizon (Some zs)"
      "effectiveHorizon (Some zs) = effectiveHorizon (Some (sort_key azimuth xs))"
    using ly lz by (simp_all add: effectiveHorizon_def)
  then show ?thesis
    by (simp add: chart_horizonPath_def)
qed

theorem horizonPath_order_invariant_witness:
  "mset [\<lparr>azimuth = 10, height = 3\<rparr>, \<lparr>azimuth = - 20, height = 7\<rparr>]
     = mset [\<lparr>azimuth = - 20, height = 7\<rparr>, \<lparr>azimuth = 10, height = 3\<rparr>]
   \<and> distinct (map azimuth [\<lparr>azimuth = - 20, height = 7\<rparr>, \<lparr>azimuth = 10, height = 3\<rparr>])
   \<and> sorted (map azimuth [\<lparr>azimuth = - 20, height = 7\<rparr>, \<lparr>azimuth = 10, height = 3\<rparr>])
   \<and> chart_horizonPath (Some [\<lparr>azimuth = 10, height = 3\<rparr>, \<lparr>azimuth = - 20, height = 7\<rparr>])
     = chart_horizonPath (Some [\<lparr>azimuth = - 20, height = 7\<rparr>, \<lparr>azimuth = 10, height = 3\<rparr>])"
proof -
  let ?ys = "[\<lparr>azimuth = 10, height = 3\<rparr>, \<lparr>azimuth = - 20, height = 7\<rparr>]"
  let ?zs = "[\<lparr>azimuth = - 20, height = 7\<rparr>, \<lparr>azimuth = 10, height = 3\<rparr>]"
  have m: "mset ?ys = mset ?zs"
    by simp
  have d: "distinct (map azimuth ?zs)"
    by simp
  have s: "sorted (map azimuth ?zs)"
    by simp
  from horizonPath_order_invariant [OF m d refl s] m d s show ?thesis
    by blast
qed

section \<open>The verified flag\<close>

lemma run_Nil: "run [] = initial_state"
  by (simp add: run_def)

lemma run_snoc: "run (es @ [e]) = step (run es) e"
  by (simp add: run_def)

lemma flag_invariant:
  "isDataReal (run es) \<Longrightarrow>
   \<exists>lines. HorizonResponse lines \<in> set es
     \<and> horizonData (run es) = Some (parsedHorizon lines) \<and> parsedHorizon lines \<noteq> []"
proof (induction es rule: rev_induct)
  case Nil
  then show ?case
    by (simp add: run_Nil initial_state_def)
next
  case (snoc e es)
  show ?case
  proof (cases e)
    case (DragEnd la lo)
    with snoc.prems show ?thesis by (simp add: run_snoc)
  next
    case (MapClick la lo)
    with snoc.prems show ?thesis by (simp add: run_snoc)
  next
    case (LatInput v)
    with snoc.prems have "isDataReal (run es)"
      by (simp add: run_snoc)
    from snoc.IH [OF this] LatInput show ?thesis
      by (auto simp add: run_snoc)
  next
    case (LonInput v)
    with snoc.prems have "isDataReal (run es)"
      by (simp add: run_snoc)
    from snoc.IH [OF this] LonInput show ?thesis
      by (auto simp add: run_snoc)
  next
    case (HorizonResponse lines)
    show ?thesis
    proof (cases "parsedHorizon lines = []")
      case True
      with snoc.prems HorizonResponse have "isDataReal (run es)"
        by (simp add: run_snoc)
      from snoc.IH [OF this] HorizonResponse True show ?thesis
        by (auto simp add: run_snoc)
    next
      case False
      with HorizonResponse show ?thesis
        by (auto simp add: run_snoc)
    qed
  next
    case HorizonFailure
    with snoc.prems show ?thesis by (simp add: run_snoc)
  qed
qed

lemma typed_location_keeps_flag:
  "isDataReal (step s (LatInput v)) = isDataReal s"
  "isDataReal (step s (LonInput v)) = isDataReal s"
  by simp_all

lemma flag_excludes_fallback: "isDataReal (run es) \<Longrightarrow> \<not> shows_fallback (run es)"
  by (drule flag_invariant) (auto simp add: shows_fallback_def)

lemma fallback_drawn:
  "shows_fallback s \<Longrightarrow> effectiveHorizon (horizonData s) = synthetic_profile"
  by (auto simp add: shows_fallback_def effectiveHorizon_fallback)

text \<open>
  C7. With no horizon samples (\<^verbatim>\<open>null\<close> or an empty array) the chart draws the
  synthetic profile, 73 points at the azimuths \<open>-180, -175, \<dots>, 180\<close> whose height is
  a sum of two sinusoids cut off at 0; the path is a closed path, so its data is not
  empty; and in every state the view can reach with no samples held, the flag passed
  to the chart is false and the badge reads \<open>Estimated Demo Profile\<close>.
\<close>

theorem fallback_profile_unverified:
  "effectiveHorizon None = synthetic_profile
   \<and> effectiveHorizon (Some []) = synthetic_profile
   \<and> length synthetic_profile = 73
   \<and> closed_path (chart_horizonPath None)
   \<and> closed_path (chart_horizonPath (Some []))
   \<and> chart_horizonPath None \<noteq> []
   \<and> chart_horizonPath (Some []) \<noteq> []
   \<and> (horizonData (run es) = None \<or> horizonData (run es) = Some [] \<longrightarrow>
        isDataReal (run es) = False
        \<and> badge (isDataReal (run es)) = ''Estimated Demo Profile'')"
proof -
  have "isDataReal (run es) = False
      \<and> badge (isDataReal (run es)) = ''Estimated Demo Profile''"
    if "horizonData (run es) = None \<or> horizonData (run es) = Some []"
  proof -
    from that have "shows_fallback (run es)"
      by (simp add: shows_fallback_def)
    with flag_excludes_fallback [of es] have "\<not> isDataReal (run es)"
      by blast
    then show ?thesis
      by (simp add: badge_def)
  qed
  moreover have "chart_horizonPath horizon \<noteq> []" for horizon
    using chart_horizonPath_closed by (rule closed_path_nonempty)
  ultimately show ?thesis
    using chart_horizonPath_closed effectiveHorizon_fallback synthetic_profile_length
    by blast
qed

theorem fallback_profile_unverified_witness:
  "horizonData (run [HorizonFailure]) = None
   \<and> isDataReal (run [HorizonFailure]) = False
   \<and> badge (isDataReal (run [HorizonFailure])) = ''Estimated Demo Profile''
   \<and> closed_path (chart_horizonPath (horizonData (run [HorizonFailure])))"
proof -
  have h: "horizonData (run [HorizonFailure]) = None"
    by (simp add: run_def initial_state_def)
  from fallback_profile_unverified [of "[HorizonFailure]"] h show ?thesis
    by auto
qed

text \<open>
  What holds of the flag in every reachable state: it is set only if the horizon data
  held is a non-empty list parsed from an answer of the horizon service; a marker
  drag and a map click reset it; and the badge \<open>Verified\<close> is never shown together
  with the synthetic profile.
\<close>

lemma verified_flag_invariant:
  "(isDataReal (run es) \<longrightarrow>
      (\<exists>lines. HorizonResponse lines \<in> set es
         \<and> horizonData (run es) = Some (parsedHorizon lines)
         \<and> parsedHorizon lines \<noteq> []))
   \<and> isDataReal (step s (DragEnd la lo)) = False
   \<and> isDataReal (step s (MapClick la lo)) = False
   \<and> \<not> (badge (isDataReal (run es)) = ''Verified: JRC PrintHorizon Data''
          \<and> shows_fallback (run es))"
proof -
  have "\<not> shows_fallback (run es)"
    if "badge (isDataReal (run es)) = ''Verified: JRC PrintHorizon Data''"
  proof -
    from that have "isDataReal (run es)"
      by (simp add: badge_def split: if_splits)
    then show ?thesis
      by (rule flag_excludes_fallback)
  qed
  with flag_invariant [of es] show ?thesis
    by auto
qed

text \<open>
  C10. The code at the failing input: after an answer of the horizon service for the
  initial location has set the flag, a latitude typed into the input field changes
  the location and leaves the flag set, so the chart keeps the badge \<open>Verified\<close> for
  the horizon of the place before.
\<close>

theorem typed_location_keeps_verified:
  "isDataReal (run [HorizonResponse [[None], [None], [Some 0, Some 5]]])
   \<and> lat (run [HorizonResponse [[None], [None], [Some 0, Some 5]]])
       = Num (414228 / 10000)
   \<and> lat (run [HorizonResponse [[None], [None], [Some 0, Some 5]], LatInput (Num 50)])
       = Num 50
   \<and> isDataReal
        (run [HorizonResponse [[None], [None], [Some 0, Some 5]], LatInput (Num 50)])
   \<and> badge (isDataReal
        (run [HorizonResponse [[None], [None], [Some 0, Some 5]], LatInput (Num 50)]))
       = ''Verified: JRC PrintHorizon Data''"
proof -
  have p: "parsedHorizon [[None], [None], [Some 0, Some 5]] = [\<lparr>azimuth = 0, height = 5\<rparr>]"
    by (simp add: parsedHorizon_def parse_line_def List.map_filter_simps)
  show ?thesis
    by (simp add: run_def initial_state_def p badge_def)
qed

section \<open>Sun path\<close>












end
